theory Spec2Isabelle
  imports Main
begin

section \<open>Python values and builtins used by the contact endpoint\<close>

text \<open>
  Strings are \<open>string\<close>: lists of characters, each a code point below 256. A value
  handed back by a collaborator is a \<open>pyval\<close>; \<open>truthy\<close> is Python's \<open>bool(v)\<close>.
\<close>

datatype pyval = PyNone | PyStr string | PyInt int | PyBool bool

fun truthy :: "pyval \<Rightarrow> bool" where
  "truthy PyNone = False"
| "truthy (PyStr s) = (s \<noteq> [])"
| "truthy (PyInt i) = (i \<noteq> 0)"
| "truthy (PyBool b) = b"

text \<open>
  \<open>os.getenv\<close> returns \<open>None\<close> or a string: a \<open>string option\<close>. \<open>str_truthy\<close> is the
  truth value Python gives it, and \<open>py_or\<close> is the value of \<open>a or b\<close>.
\<close>

fun str_truthy :: "string option \<Rightarrow> bool" where
  "str_truthy None = False"
| "str_truthy (Some s) = (s \<noteq> [])"

definition py_or :: "string option \<Rightarrow> string option \<Rightarrow> string option" where
  "py_or a b = (if str_truthy a then a else b)"

definition getenv_default :: "(string \<Rightarrow> string option) \<Rightarrow> string \<Rightarrow> string \<Rightarrow> string" where
  "getenv_default env k d = (case env k of None \<Rightarrow> d | Some v \<Rightarrow> v)"

subsection \<open>The builtin \<open>int(s)\<close> on a string\<close>

text \<open>
  \<open>int(s)\<close> strips whitespace on both sides, reads an optional sign and then decimal
  digits, single underscores allowed between two digits. Anything else raises
  \<open>ValueError\<close> (\<open>None\<close> here), and so does a literal of more than 4300 digits, the
  interpreter's default limit. Below 256 the whitespace \<open>int\<close> strips is blank, tab, line
  feed, vertical tab, form feed, carriage return, U+0085 and U+00A0, and the decimal
  digits are the ten ASCII ones.
\<close>

definition newline :: char where
  "newline = CHR 0x0A"

definition is_space :: "char \<Rightarrow> bool" where
  "is_space c =
     (c \<in> set [CHR '' '', CHR 0x09, CHR 0x0A, CHR 0x0B, CHR 0x0C, CHR 0x0D, CHR 0x85, CHR 0xA0])"

definition is_digit :: "char \<Rightarrow> bool" where
  "is_digit c = (c \<in> set ''0123456789'')"

definition digit_val :: "char \<Rightarrow> int" where
  "digit_val c = int (of_char c) - 48"

definition strip :: "string \<Rightarrow> string" where
  "strip s = rev (dropWhile is_space (rev (dropWhile is_space s)))"

fun digits_ok :: "string \<Rightarrow> bool" where
  "digits_ok [] = False"
| "digits_ok [c] = is_digit c"
| "digits_ok (c # d # cs) =
     (is_digit c \<and> (if d = CHR ''_'' then digits_ok cs else digits_ok (d # cs)))"

definition digits_value :: "string \<Rightarrow> int" where
  "digits_value s = foldl (\<lambda>acc c. 10 * acc + digit_val c) 0 (filter is_digit s)"

definition int_max_str_digits :: nat where
  "int_max_str_digits = 4300"

definition unsigned_int :: "string \<Rightarrow> int option" where
  "unsigned_int s =
     (if digits_ok s \<and> length (filter is_digit s) \<le> int_max_str_digits
      then Some (digits_value s) else None)"

definition py_int :: "string \<Rightarrow> int option" where
  "py_int s =
     (case strip s of
        [] \<Rightarrow> None
      | c # r \<Rightarrow>
          if c = CHR ''-'' then map_option uminus (unsigned_int r)
          else if c = CHR ''+'' then unsigned_int r
          else unsigned_int (c # r))"

subsection \<open>\<open>str.replace(old, new)\<close>\<close>

text \<open>
  Non-overlapping occurrences of \<open>old\<close> are replaced from the left. With an empty
  \<open>old\<close>, Python puts \<open>new\<close> before every character and at the end.
\<close>

function py_replace :: "string \<Rightarrow> string \<Rightarrow> string \<Rightarrow> string" where
  "py_replace old new s =
     (if old = [] then new @ concat (map (\<lambda>c. c # new) s)
      else if s = [] then []
      else if take (length old) s = old then new @ py_replace old new (drop (length old) s)
      else hd s # py_replace old new (tl s))"
  by pat_completeness auto
termination
  by (relation "measure (\<lambda>(old, new, s). length s)") auto

section \<open>Data of the endpoint\<close>

text \<open>\<open>ContactRequest\<close>: the validated request body, lines 65 to 68 of main.py.\<close>

record ContactRequest =
  name :: string
  email :: string
  message :: string

text \<open>The dictionary the endpoint returns.\<close>

record response =
  ok :: bool
  stored :: bool
  email_sent :: bool
  message :: string

text \<open>
  What can leave the endpoint instead of a response: the framework's 422 for a body that
  does not validate as a \<open>ContactRequest\<close>, and an exception raised by the handler itself
  (the framework answers it with a 500).
\<close>

datatype error = RequestValidationError | ValueError

text \<open>The MIME message built in lines 109 to 113.\<close>

record mime =
  subject :: string
  from_header :: string
  to_header :: string
  html :: string

text \<open>
  The calls the handler makes to the outside, in the order it makes them:
  \<open>create_document(collection, ContactMessage(name, email, message))\<close>, \<open>os.getenv(key)\<close>,
  and the SMTP session: \<open>smtplib.SMTP(host, port, timeout=15)\<close>, \<open>starttls()\<close>,
  \<open>login(user, password)\<close>, \<open>sendmail(from, [to], msg)\<close> and the \<open>QUIT\<close> that leaving
  the \<open>with\<close> block sends. An entry stands for a call that was started, whether it
  returned or raised.
\<close>

datatype event =
    CreateDocument string string string string
  | Getenv string
  | SmtpConnect string int
  | SmtpStarttls
  | SmtpLogin string string
  | SmtpSendmail string "string list" mime
  | SmtpQuit

text \<open>
  \<open>schemas.ContactMessage\<close> and \<open>database.create_document\<close> are imported by main.py and
  are not part of it: what the two calls of lines 78 and 79 do is a parameter. Either the
  constructor raises, or \<open>create_document\<close> is called and raises (an absent database
  included), or it returns a value.
\<close>

datatype store_outcome = SchemaRaises | CreateRaises | CreateReturns pyval

datatype smtp_step = Connect | Starttls | Login | Sendmail | Quit

text \<open>
  The environment of one request: the process environment, what the store does, which
  steps of an SMTP session raise an exception (for \<open>Quit\<close>: leaving the \<open>with\<close> block
  raises), and for which messages the standard library's \<open>msg.as_string()\<close> raises: it
  does for a header with a line break that does not continue the header
  (\<open>HeaderParseError\<close>, \<open>HeaderWriteError\<close>), and which headers those are differs between
  versions of the library. The handler catches \<open>Exception\<close>, and that is what raising means
  throughout.
\<close>

record world =
  getenv :: "string \<Rightarrow> string option"
  store :: store_outcome
  relay :: "smtp_step \<Rightarrow> bool"
  as_string_raises :: "mime \<Rightarrow> bool"

text \<open>The six values of lines 85 to 90.\<close>

record smtp_config =
  smtp_host :: "string option"
  smtp_port :: int
  smtp_user :: "string option"
  smtp_pass :: "string option"
  smtp_from :: "string option"
  smtp_to :: "string option"

section \<open>The handler \<open>submit_contact\<close>\<close>

text \<open>
  Every part returns the calls it made and its value. Lines 76 to 82: the \<open>try\<close> around
  the store; any exception leaves the identifier \<open>None\<close>.
\<close>

definition save_to_database :: "store_outcome \<Rightarrow> ContactRequest \<Rightarrow> event list \<times> pyval" where
  "save_to_database st payload =
     (let call = CreateDocument ''contactmessage'' (name payload) (email payload)
                   (ContactRequest.message payload)
      in case st of
           SchemaRaises \<Rightarrow> ([], PyNone)
         | CreateRaises \<Rightarrow> ([call], PyNone)
         | CreateReturns v \<Rightarrow> ([call], v))"

text \<open>
  Lines 85 to 90. \<open>int(...)\<close> stands outside every \<open>try\<close>: when it raises, the handler
  raises, after two reads of the environment. The second operand of an \<open>or\<close> is read only
  when the first is falsy.
\<close>

definition prepare_email :: "(string \<Rightarrow> string option) \<Rightarrow> event list \<times> (error + smtp_config)" where
  "prepare_email env =
     (case py_int (getenv_default env ''SMTP_PORT'' ''587'') of
        None \<Rightarrow> ([Getenv ''SMTP_HOST'', Getenv ''SMTP_PORT''], Inl ValueError)
      | Some port \<Rightarrow>
          ([Getenv ''SMTP_HOST'', Getenv ''SMTP_PORT'', Getenv ''SMTP_USER'',
            Getenv ''SMTP_PASS'', Getenv ''SMTP_FROM'']
           @ (if str_truthy (env ''SMTP_FROM'') then [] else [Getenv ''SMTP_USER''])
           @ [Getenv ''SMTP_TO'']
           @ (if str_truthy (env ''SMTP_TO'') then [] else [Getenv ''CONTACT_RECIPIENT'']),
           Inr \<lparr>smtp_host = env ''SMTP_HOST'',
                smtp_port = port,
                smtp_user = env ''SMTP_USER'',
                smtp_pass = env ''SMTP_PASS'',
                smtp_from = py_or (env ''SMTP_FROM'') (env ''SMTP_USER''),
                smtp_to = py_or (env ''SMTP_TO'') (env ''CONTACT_RECIPIENT'')\<rparr>))"

text \<open>The test of line 92, without its negation.\<close>

definition configured :: "smtp_config \<Rightarrow> bool" where
  "configured c =
     (str_truthy (smtp_host c) \<and> smtp_port c \<noteq> 0 \<and> str_truthy (smtp_user c) \<and>
      str_truthy (smtp_pass c) \<and> str_truthy (smtp_from c) \<and> str_truthy (smtp_to c))"

definition NOT_CONFIGURED :: string where
  "NOT_CONFIGURED =
     ''Contact saved. Email service not configured on server. Please set SMTP environment variables to enable email sending.''"

definition THANKS :: string where
  "THANKS = ''Thanks! Your message has been received. We'' @ [CHR 0x27] @ ''ll get back to you shortly.''"

text \<open>Lines 101 to 113.\<close>

definition html_body :: "ContactRequest \<Rightarrow> string" where
  "html_body payload =
     [newline] @
     ''        <h2>New Contact Inquiry</h2>'' @ [newline] @
     ''        <p><strong>Name:</strong> '' @ name payload @ ''</p>'' @ [newline] @
     ''        <p><strong>Email:</strong> '' @ email payload @ ''</p>'' @ [newline] @
     ''        <p><strong>Message:</strong><br/>'' @
       py_replace [newline] ''<br/>'' (ContactRequest.message payload) @ ''</p>'' @ [newline] @
     ''    ''"

definition build_message :: "ContactRequest \<Rightarrow> smtp_config \<Rightarrow> mime" where
  "build_message payload c =
     \<lparr>subject = ''New Inquiry from Bean and Cofe: '' @ name payload,
      from_header = the (smtp_from c),
      to_header = the (smtp_to c),
      html = html_body payload\<rparr>"

text \<open>
  Lines 115 to 122. \<open>run_steps\<close> runs the statements of a block in order until one
  raises; a statement is given by whether it raises and by the calls it starts. The body
  of the \<open>with\<close> block is \<open>starttls()\<close>, \<open>login(...)\<close>, and line 119, which first
  evaluates \<open>msg.as_string()\<close> and then calls \<open>sendmail\<close> with the text: when
  \<open>as_string\<close> raises, \<open>sendmail\<close> is not called. When the constructor has connected,
  leaving the block sends \<open>QUIT\<close>, whether the body raised or not, and that can raise
  too. \<open>email_sent\<close> is true when nothing raised.
\<close>

fun run_steps :: "(bool \<times> event list) list \<Rightarrow> event list \<times> bool" where
  "run_steps [] = ([], True)"
| "run_steps ((raises, calls) # rest) =
     (if raises then (calls, False)
      else (case run_steps rest of (t, done) \<Rightarrow> (calls @ t, done)))"

definition send_email ::
  "(smtp_step \<Rightarrow> bool) \<Rightarrow> (mime \<Rightarrow> bool) \<Rightarrow> smtp_config \<Rightarrow> mime \<Rightarrow> event list \<times> bool" where
  "send_email raises unserialisable c msg =
     (let connect = SmtpConnect (the (smtp_host c)) (smtp_port c) in
      if raises Connect then ([connect], False)
      else
        (case run_steps
                [(raises Starttls, [SmtpStarttls]),
                 (raises Login, [SmtpLogin (the (smtp_user c)) (the (smtp_pass c))]),
                 (unserialisable msg, []),
                 (raises Sendmail, [SmtpSendmail (the (smtp_from c)) [the (smtp_to c)] msg])] of
           (t, done) \<Rightarrow> (connect # t @ [SmtpQuit], done \<and> \<not> raises Quit)))"

definition submit_contact :: "world \<Rightarrow> ContactRequest \<Rightarrow> event list \<times> (error + response)" where
  "submit_contact w payload =
     (case save_to_database (store w) payload of
        (t1, doc_id) \<Rightarrow>
          (case prepare_email (getenv w) of
             (t2, Inl e) \<Rightarrow> (t1 @ t2, Inl e)
           | (t2, Inr c) \<Rightarrow>
               if \<not> configured c then
                 (t1 @ t2,
                  Inr \<lparr>ok = True, stored = truthy doc_id, email_sent = False,
                       message = NOT_CONFIGURED\<rparr>)
               else
                 (case send_email (relay w) (as_string_raises w) c (build_message payload c) of
                    (t3, sent) \<Rightarrow>
                      (t1 @ t2 @ t3,
                       Inr \<lparr>ok = True, stored = truthy doc_id, email_sent = sent,
                            message = THANKS\<rparr>))))"

text \<open>
  The route \<open>POST /contact\<close>, lines 65 to 71: the framework builds the \<open>ContactRequest\<close>
  from the body and calls the handler only when that succeeds. \<open>EmailStr\<close> is the
  library's validator, a parameter here: it gives the address it accepts, normalised, or
  nothing.
\<close>

definition post_contact ::
  "(string \<Rightarrow> string option) \<Rightarrow> world \<Rightarrow> string \<Rightarrow> string \<Rightarrow> string \<Rightarrow> event list \<times> (error + response)" where
  "post_contact EmailStr w nm em msg =
     (case EmailStr em of
        None \<Rightarrow> ([], Inl RequestValidationError)
      | Some e \<Rightarrow> submit_contact w \<lparr>name = nm, email = e, message = msg\<rparr>)"

section \<open>Notions used to state the properties\<close>

text \<open>The effective port: \<open>int(os.getenv("SMTP_PORT", "587"))\<close>, when it is one.\<close>

definition effective_port :: "(string \<Rightarrow> string option) \<Rightarrow> int option" where
  "effective_port env = py_int (getenv_default env ''SMTP_PORT'' ''587'')"

fun is_connect :: "event \<Rightarrow> bool" where
  "is_connect (SmtpConnect h p) = True"
| "is_connect ev = False"

fun is_sendmail :: "event \<Rightarrow> bool" where
  "is_sendmail (SmtpSendmail f t m) = True"
| "is_sendmail ev = False"

fun is_smtp :: "event \<Rightarrow> bool" where
  "is_smtp (CreateDocument c n e m) = False"
| "is_smtp (Getenv k) = False"
| "is_smtp ev = True"

text \<open>Delivery is attempted when a connection to the relay is opened.\<close>

definition delivery_attempted :: "event list \<Rightarrow> bool" where
  "delivery_attempted tr = list_ex is_connect tr"

text \<open>
  \<open>starttls_first\<close>: reading the calls in order, \<open>starttls\<close> comes before any \<open>login\<close>
  and any \<open>sendmail\<close>.
\<close>

fun starttls_first :: "event list \<Rightarrow> bool" where
  "starttls_first [] = True"
| "starttls_first (SmtpStarttls # es) = True"
| "starttls_first (SmtpLogin u p # es) = False"
| "starttls_first (SmtpSendmail f t m # es) = False"
| "starttls_first (e # es) = starttls_first es"

text \<open>The line-break markup put in place of one character of the message.\<close>

definition nl2br :: "char \<Rightarrow> string" where
  "nl2br c = (if c = newline then ''<br/>'' else [c])"

subsection \<open>The effective values as the specification words them\<close>

text \<open>
  The specification's reading of the configuration: the port defaults to 587 when
  \<open>SMTP_PORT\<close> is unset, the sender falls back to \<open>SMTP_USER\<close> when \<open>SMTP_FROM\<close> is
  unset, the recipient to \<open>CONTACT_RECIPIENT\<close> when \<open>SMTP_TO\<close> is unset, and all six
  have to be non-empty.
\<close>

definition spec_fallback :: "string option \<Rightarrow> string option \<Rightarrow> string option" where
  "spec_fallback a b = (case a of None \<Rightarrow> b | Some v \<Rightarrow> Some v)"

definition spec_all_six_non_empty :: "(string \<Rightarrow> string option) \<Rightarrow> bool" where
  "spec_all_six_non_empty env =
     (str_truthy (env ''SMTP_HOST'') \<and>
      getenv_default env ''SMTP_PORT'' ''587'' \<noteq> [] \<and>
      str_truthy (env ''SMTP_USER'') \<and>
      str_truthy (env ''SMTP_PASS'') \<and>
      str_truthy (spec_fallback (env ''SMTP_FROM'') (env ''SMTP_USER'')) \<and>
      str_truthy (spec_fallback (env ''SMTP_TO'') (env ''CONTACT_RECIPIENT'')))"

subsection \<open>Concrete requests and environments\<close>

text \<open>The submission of the specification's scenarios.\<close>

definition ada :: ContactRequest where
  "ada = \<lparr>name = ''Ada'', email = ''ada@example.com'', message = ''Hi'' @ [newline] @ ''there''\<rparr>"

text \<open>A submission whose name carries a second header line.\<close>

definition mallory :: ContactRequest where
  "mallory =
     \<lparr>name = ''Ada'' @ [newline] @ ''Bcc: evil@example.com'', email = ''ada@example.com'',
      message = ''Hi''\<rparr>"

text \<open>A stand-in for the validator: it accepts what has an at sign.\<close>

definition has_at :: "string \<Rightarrow> string option" where
  "has_at s = (if CHR ''@'' \<in> set s then Some s else None)"

definition env_complete :: "string \<Rightarrow> string option" where
  "env_complete =
     [''SMTP_HOST'' \<mapsto> ''smtp.example.com'', ''SMTP_PORT'' \<mapsto> ''587'',
      ''SMTP_USER'' \<mapsto> ''mailer'', ''SMTP_PASS'' \<mapsto> ''secret'',
      ''SMTP_FROM'' \<mapsto> ''noreply@example.com'', ''SMTP_TO'' \<mapsto> ''owner@example.com'']"

text \<open>The values the handler computes from \<open>env_complete\<close>.\<close>

definition config_complete :: smtp_config where
  "config_complete =
     \<lparr>smtp_host = Some ''smtp.example.com'', smtp_port = 587,
      smtp_user = Some ''mailer'', smtp_pass = Some ''secret'',
      smtp_from = Some ''noreply@example.com'', smtp_to = Some ''owner@example.com''\<rparr>"

text \<open>A stand-in for the serialiser: it raises when a header holds a line feed.\<close>

definition header_break :: "mime \<Rightarrow> bool" where
  "header_break m =
     (newline \<in> set (subject m) \<or> newline \<in> set (from_header m) \<or> newline \<in> set (to_header m))"

definition no_failure :: "smtp_step \<Rightarrow> bool" where
  "no_failure s = False"

definition login_fails :: "smtp_step \<Rightarrow> bool" where
  "login_fails s = (s = Login)"

definition good_world :: world where
  "good_world =
     \<lparr>getenv = env_complete, store = CreateReturns (PyStr ''65f0c0ffee''), relay = no_failure,
      as_string_raises = header_break\<rparr>"

text \<open>The complete environment with one variable changed.\<close>

definition env_bad_port :: "string \<Rightarrow> string option" where
  "env_bad_port = env_complete(''SMTP_PORT'' \<mapsto> ''abc'')"

definition env_port_zero :: "string \<Rightarrow> string option" where
  "env_port_zero = env_complete(''SMTP_PORT'' \<mapsto> ''0'')"

definition env_empty_from :: "string \<Rightarrow> string option" where
  "env_empty_from = env_complete(''SMTP_FROM'' \<mapsto> [])"

definition env_empty_port :: "string \<Rightarrow> string option" where
  "env_empty_port = env_complete(''SMTP_PORT'' \<mapsto> [])"

definition env_no_host :: "string \<Rightarrow> string option" where
  "env_no_host = env_complete(''SMTP_HOST'' := None)"

definition world_with :: "(string \<Rightarrow> string option) \<Rightarrow> world" where
  "world_with env =
     \<lparr>getenv = env, store = CreateReturns (PyStr ''65f0c0ffee''), relay = no_failure,
      as_string_raises = header_break\<rparr>"

definition failing_relay_world :: world where
  "failing_relay_world =
     \<lparr>getenv = env_complete, store = CreateReturns (PyStr ''65f0c0ffee''), relay = login_fails,
      as_string_raises = header_break\<rparr>"

definition storeless_world :: world where
  "storeless_world =
     \<lparr>getenv = env_complete, store = CreateRaises, relay = no_failure,
      as_string_raises = header_break\<rparr>"

section \<open>Facts about the parts of the handler\<close>

declare py_replace.simps [simp del]

lemma py_replace_single:
  "py_replace [c] new s = concat (map (\<lambda>x. if x = c then new else [x]) s)"
proof (induction s)
  case Nil
  show ?case by (subst py_replace.simps) simp
next
  case (Cons a s)
  show ?case
    by (subst py_replace.simps) (simp add: Cons.IH)
qed

lemma stored_truthy:
  "truthy (snd (save_to_database st p)) \<longleftrightarrow> (\<exists>v. st = CreateReturns v \<and> truthy v)"
  by (auto simp: save_to_database_def Let_def split: store_outcome.splits)

lemma prepare_email_error:
  "effective_port env = None \<Longrightarrow>
   prepare_email env = ([Getenv ''SMTP_HOST'', Getenv ''SMTP_PORT''], Inl ValueError)"
  by (simp add: prepare_email_def effective_port_def)

lemma prepare_email_value:
  "effective_port env = Some port \<Longrightarrow>
   snd (prepare_email env) =
     Inr \<lparr>smtp_host = env ''SMTP_HOST'', smtp_port = port, smtp_user = env ''SMTP_USER'',
          smtp_pass = env ''SMTP_PASS'',
          smtp_from = py_or (env ''SMTP_FROM'') (env ''SMTP_USER''),
          smtp_to = py_or (env ''SMTP_TO'') (env ''CONTACT_RECIPIENT'')\<rparr>"
  by (simp add: prepare_email_def effective_port_def)

lemma prepare_email_events:
  "\<exists>rest. fst (prepare_email env) = Getenv ''SMTP_HOST'' # Getenv ''SMTP_PORT'' # rest"
  by (simp add: prepare_email_def split: option.splits)

lemma submit_contact_raises:
  "effective_port (getenv w) = None \<Longrightarrow>
   submit_contact w p =
     (fst (save_to_database (store w) p) @ [Getenv ''SMTP_HOST'', Getenv ''SMTP_PORT''],
      Inl ValueError)"
  by (cases "save_to_database (store w) p")
     (simp add: submit_contact_def prepare_email_error)

lemma submit_contact_not_configured:
  "snd (prepare_email (getenv w)) = Inr c \<Longrightarrow> \<not> configured c \<Longrightarrow>
   submit_contact w p =
     (fst (save_to_database (store w) p) @ fst (prepare_email (getenv w)),
      Inr \<lparr>ok = True, stored = truthy (snd (save_to_database (store w) p)),
           email_sent = False, message = NOT_CONFIGURED\<rparr>)"
  by (cases "save_to_database (store w) p"; cases "prepare_email (getenv w)")
     (simp add: submit_contact_def)

lemma submit_contact_configured:
  "snd (prepare_email (getenv w)) = Inr c \<Longrightarrow> configured c \<Longrightarrow>
   submit_contact w p =
     (fst (save_to_database (store w) p) @ fst (prepare_email (getenv w)) @
        fst (send_email (relay w) (as_string_raises w) c (build_message p c)),
      Inr \<lparr>ok = True, stored = truthy (snd (save_to_database (store w) p)),
           email_sent = snd (send_email (relay w) (as_string_raises w) c (build_message p c)),
           message = THANKS\<rparr>)"
  by (cases "save_to_database (store w) p"; cases "prepare_email (getenv w)";
      cases "send_email (relay w) (as_string_raises w) c (build_message p c)")
     (simp add: submit_contact_def)

lemma send_email_ok:
  "\<forall>s. \<not> raises s \<Longrightarrow> \<not> unserialisable msg \<Longrightarrow>
   send_email raises unserialisable c msg =
     ([SmtpConnect (the (smtp_host c)) (smtp_port c), SmtpStarttls,
       SmtpLogin (the (smtp_user c)) (the (smtp_pass c)),
       SmtpSendmail (the (smtp_from c)) [the (smtp_to c)] msg, SmtpQuit], True)"
  by (simp add: send_email_def Let_def)

lemma send_email_fails:
  "raises s \<Longrightarrow> snd (send_email raises unserialisable c msg) = False"
  by (cases s) (simp_all add: send_email_def Let_def)

lemma send_email_unserialisable:
  "unserialisable msg \<Longrightarrow>
   snd (send_email raises unserialisable c msg) = False \<and>
   filter is_sendmail (fst (send_email raises unserialisable c msg)) = []"
  by (simp add: send_email_def Let_def)

lemma send_email_reaches_sendmail:
  "SmtpSendmail (the (smtp_from c)) [the (smtp_to c)] msg
     \<in> set (fst (send_email raises unserialisable c msg)) \<longleftrightarrow>
   \<not> unserialisable msg \<and> \<not> raises Connect \<and> \<not> raises Starttls \<and> \<not> raises Login"
  by (simp add: send_email_def Let_def)


lemma send_email_events:
  "\<exists>rest. fst (send_email raises unserialisable c msg) =
        SmtpConnect (the (smtp_host c)) (smtp_port c) # rest \<and>
      \<not> list_ex is_connect rest \<and> starttls_first rest \<and>
      (\<forall>f tos m. SmtpSendmail f tos m \<in> set rest \<longrightarrow>
          f = the (smtp_from c) \<and> tos = [the (smtp_to c)] \<and> m = msg)"
  by (simp add: send_email_def Let_def)

lemma submit_contact_returns:
  "effective_port (getenv w) = Some port \<Longrightarrow> \<exists>r. snd (submit_contact w p) = Inr r"
proof -
  assume "effective_port (getenv w) = Some port"
  then obtain c where c: "snd (prepare_email (getenv w)) = Inr c"
    by (simp add: prepare_email_value)
  show ?thesis
    by (cases "configured c")
       (simp_all add: submit_contact_configured [OF c] submit_contact_not_configured [OF c])
qed

lemma submit_contact_response:
  assumes "snd (submit_contact w p) = Inr r"
  shows "ok r \<and> stored r = truthy (snd (save_to_database (store w) p)) \<and>
    (\<exists>c. snd (prepare_email (getenv w)) = Inr c \<and>
       (if configured c
        then email_sent r = snd (send_email (relay w) (as_string_raises w) c (build_message p c)) \<and> message r = THANKS
        else \<not> email_sent r \<and> message r = NOT_CONFIGURED))"
proof (cases "effective_port (getenv w)")
  case None
  with assms show ?thesis by (simp add: submit_contact_raises)
next
  case (Some port)
  then obtain c where c: "snd (prepare_email (getenv w)) = Inr c"
    by (simp add: prepare_email_value)
  show ?thesis
  proof (cases "configured c")
    case True
    with assms c show ?thesis by (auto simp: submit_contact_configured [OF c True])
  next
    case False
    with assms c show ?thesis by (auto simp: submit_contact_not_configured [OF c False])
  qed
qed

lemma post_contact_valid:
  "EmailStr em = Some e \<Longrightarrow>
   post_contact EmailStr w nm em msg = submit_contact w \<lparr>name = nm, email = e, message = msg\<rparr>"
  by (simp add: post_contact_def)

lemmas py_int_defs =
  py_int_def strip_def is_space_def unsigned_int_def is_digit_def digits_value_def
  digit_val_def int_max_str_digits_def getenv_default_def effective_port_def

lemma effective_port_complete: "effective_port env_complete = Some 587"
  by (simp add: py_int_defs env_complete_def)

lemma prepare_email_complete: "snd (prepare_email env_complete) = Inr config_complete"
  unfolding prepare_email_value [OF effective_port_complete]
  by (simp add: env_complete_def py_or_def config_complete_def)

lemma configured_complete: "configured config_complete"
  by (simp add: configured_def config_complete_def)

lemma save_no_smtp: "\<forall>e\<in>set (fst (save_to_database st p)). \<not> is_smtp e"
  by (auto simp: save_to_database_def Let_def split: store_outcome.splits)

lemma prepare_no_smtp: "\<forall>e\<in>set (fst (prepare_email env)). \<not> is_smtp e"
  by (simp add: prepare_email_def split: option.splits)

lemma not_smtp_not_connect: "\<not> is_smtp e \<Longrightarrow> \<not> is_connect e"
  by (cases e) simp_all

lemma not_smtp_not_sendmail: "\<not> is_smtp e \<Longrightarrow> \<not> is_sendmail e"
  by (cases e) simp_all

lemma filter_connect_no_smtp: "\<forall>e\<in>set t. \<not> is_smtp e \<Longrightarrow> filter is_connect t = []"
  by (induction t) (auto dest: not_smtp_not_connect)

lemma filter_smtp_no_smtp: "\<forall>e\<in>set t. \<not> is_smtp e \<Longrightarrow> filter is_smtp t = []"
  by (induction t) auto

lemma starttls_first_no_smtp:
  "\<forall>e\<in>set t. \<not> is_smtp e \<Longrightarrow> starttls_first (t @ u) = starttls_first u"
proof (induction t)
  case Nil
  show ?case by simp
next
  case (Cons e t)
  then have "\<not> is_smtp e" and "starttls_first (t @ u) = starttls_first u" by simp_all
  then show ?case by (cases e) simp_all
qed

lemma str_truthy_py_or: "str_truthy (py_or a b) \<longleftrightarrow> str_truthy a \<or> str_truthy b"
  by (simp add: py_or_def)

lemma attempted_iff_configured:
  assumes "snd (prepare_email (getenv w)) = Inr c"
  shows "delivery_attempted (fst (submit_contact w p)) \<longleftrightarrow> configured c"
proof (cases "configured c")
  case True
  obtain rest where "fst (send_email (relay w) (as_string_raises w) c (build_message p c)) =
      SmtpConnect (the (smtp_host c)) (smtp_port c) # rest"
    using send_email_events by blast
  with True show ?thesis
    by (simp add: submit_contact_configured [OF assms True] delivery_attempted_def)
next
  case False
  have "\<forall>e\<in>set (fst (save_to_database (store w) p) @ fst (prepare_email (getenv w))).
      \<not> is_connect e"
    using save_no_smtp prepare_no_smtp not_smtp_not_connect by auto
  with False show ?thesis
    by (simp add: submit_contact_not_configured [OF assms False] delivery_attempted_def
          list_ex_iff)
qed

lemma effective_port_no_host: "effective_port env_no_host = Some 587"
  by (simp add: py_int_defs env_no_host_def env_complete_def)

lemma effective_port_zero: "effective_port env_port_zero = Some 0"
  by (simp add: py_int_defs env_port_zero_def env_complete_def)

lemma effective_port_empty_from: "effective_port env_empty_from = Some 587"
  by (simp add: py_int_defs env_empty_from_def env_complete_def)

lemma send_email_counts:
  "length (filter is_connect (fst (send_email raises unserialisable c msg))) = 1 \<and>
   length (filter is_sendmail (fst (send_email raises unserialisable c msg))) \<le> 1"
  by (simp add: send_email_def Let_def)

lemma filter_sendmail_no_smtp: "\<forall>e\<in>set t. \<not> is_smtp e \<Longrightarrow> filter is_sendmail t = []"
  by (induction t) (auto dest: not_smtp_not_sendmail)

lemma html_body_template:
  "html_body p =
     [newline] @
     ''        <h2>New Contact Inquiry</h2>'' @ [newline] @
     ''        <p><strong>Name:</strong> '' @ name p @ ''</p>'' @ [newline] @
     ''        <p><strong>Email:</strong> '' @ email p @ ''</p>'' @ [newline] @
     ''        <p><strong>Message:</strong><br/>'' @
       concat (map nl2br (ContactRequest.message p)) @ ''</p>'' @ [newline] @
     ''    ''"
proof -
  have "py_replace [newline] ''<br/>'' (ContactRequest.message p) =
      concat (map nl2br (ContactRequest.message p))"
    unfolding py_replace_single by (simp add: nl2br_def [abs_def])
  then show ?thesis by (simp add: html_body_def)
qed

lemma nl2br_no_newline: "newline \<notin> set (concat (map nl2br s))"
  by (induction s) (auto simp: nl2br_def newline_def)

lemma build_message_ada:
  "build_message ada config_complete =
      \<lparr>subject = ''New Inquiry from Bean and Cofe: Ada'',
         from_header = ''noreply@example.com'', to_header = ''owner@example.com'',
         html = [newline] @
           ''        <h2>New Contact Inquiry</h2>'' @ [newline] @
           ''        <p><strong>Name:</strong> Ada</p>'' @ [newline] @
           ''        <p><strong>Email:</strong> ada@example.com</p>'' @ [newline] @
           ''        <p><strong>Message:</strong><br/>Hi<br/>there</p>'' @ [newline] @
           ''    ''\<rparr>"
  by (simp add: build_message_def html_body_template config_complete_def ada_def nl2br_def
        newline_def)

lemma serialises_ada: "\<not> header_break (build_message ada config_complete)"
  by (simp add: header_break_def build_message_def config_complete_def ada_def newline_def)

text \<open>
  A name with a second header line: when the serialiser refuses the message, line 119
  raises before \<open>sendmail\<close> is called. Nothing is handed to the relay, no send takes
  place, and \<open>email_sent\<close> is false, though the relay raises at no step.
\<close>

lemma header_line_in_name_not_sent:
  "snd (submit_contact good_world mallory) =
     Inr \<lparr>ok = True, stored = True, email_sent = False, message = THANKS\<rparr> \<and>
   filter is_smtp (fst (submit_contact good_world mallory)) =
     [SmtpConnect ''smtp.example.com'' 587, SmtpStarttls, SmtpLogin ''mailer'' ''secret'',
      SmtpQuit]"
proof -
  have c: "snd (prepare_email (getenv good_world)) = Inr config_complete"
    by (simp add: good_world_def prepare_email_complete)
  have h: "as_string_raises good_world (build_message mallory config_complete)"
    by (simp add: good_world_def header_break_def build_message_def mallory_def)
  have n: "\<not> relay good_world s" for s
    by (simp add: good_world_def no_failure_def)
  have s: "send_email (relay good_world) (as_string_raises good_world) config_complete
      (build_message mallory config_complete) =
     ([SmtpConnect ''smtp.example.com'' 587, SmtpStarttls, SmtpLogin ''mailer'' ''secret'',
       SmtpQuit], False)"
    using h by (simp add: send_email_def Let_def n config_complete_def)
  have pre: "filter is_smtp (fst (save_to_database (store good_world) mallory) @
      fst (prepare_email (getenv good_world))) = []"
    using save_no_smtp prepare_no_smtp by (intro filter_smtp_no_smtp) auto
  have t: "truthy (snd (save_to_database (store good_world) mallory))"
    by (simp add: good_world_def save_to_database_def)
  show ?thesis
    unfolding submit_contact_configured [OF c configured_complete] s
    using pre t by simp
qed

section \<open>The claims\<close>

text \<open>
  C1. A request whose email field the validator rejects is answered with the validation
  error, and the handler is not entered: no call to the store, no read of the
  environment, no connection to the mail relay.
\<close>

theorem invalid_email_rejected:
  "EmailStr em = None \<Longrightarrow> post_contact EmailStr w nm em msg = ([], Inl RequestValidationError)"
  by (simp add: post_contact_def)

theorem invalid_email_rejected_witness:
  "has_at ''ada.example.com'' = None \<and>
   post_contact has_at good_world ''Ada'' ''ada.example.com'' ''Hi'' =
     ([], Inl RequestValidationError)"
  using invalid_email_rejected [of has_at "''ada.example.com''" good_world "''Ada''" "''Hi''"]
  by (simp add: has_at_def)

text \<open>
  C2. For a request that passes validation, every response the endpoint returns has
  \<open>ok = True\<close>, whatever the store, the configuration and the relay do; and whenever
  \<open>SMTP_PORT\<close> is unset or an integer literal, such a response is returned.
\<close>

theorem response_always_ok:
  assumes "EmailStr em = Some e"
  shows "(\<forall>r. snd (post_contact EmailStr w nm em msg) = Inr r \<longrightarrow> ok r) \<and>
         (effective_port (getenv w) \<noteq> None \<longrightarrow>
            (\<exists>r. snd (post_contact EmailStr w nm em msg) = Inr r \<and> ok r))"
proof -
  let ?p = "\<lparr>name = nm, email = e, message = msg\<rparr>"
  have eq: "post_contact EmailStr w nm em msg = submit_contact w ?p"
    using assms by (rule post_contact_valid)
  have a: "\<forall>r. snd (submit_contact w ?p) = Inr r \<longrightarrow> ok r"
    using submit_contact_response by blast
  have b: "effective_port (getenv w) \<noteq> None \<longrightarrow> (\<exists>r. snd (submit_contact w ?p) = Inr r \<and> ok r)"
    using submit_contact_returns a by blast
  from a b show ?thesis by (simp only: eq) 
qed

theorem response_always_ok_witness:
  "has_at ''ada@example.com'' = Some ''ada@example.com'' \<and>
   effective_port (getenv good_world) \<noteq> None \<and>
   (\<exists>r. snd (post_contact has_at good_world ''Ada'' ''ada@example.com'' ''Hi'') = Inr r \<and> ok r)"
proof -
  have v: "has_at ''ada@example.com'' = Some ''ada@example.com''"
    by (simp add: has_at_def)
  have p: "effective_port (getenv good_world) \<noteq> None"
    by (simp add: good_world_def effective_port_complete)
  from response_always_ok [of has_at "''ada@example.com''" "''ada@example.com''"
      good_world "''Ada''" "''Hi''"] v p
  show ?thesis by blast
qed

text \<open>
  C3. When the store fails (the record constructor or \<open>create_document\<close> raises, an
  absent database included), every response has \<open>stored = False\<close>; the handler goes on to
  read the mail configuration; with a complete configuration it opens the connection to
  the relay; and the failure is not escalated: the outcome is the one a working store
  gives, with \<open>stored\<close> set to false, and the calls after the store's are the same.
\<close>

theorem store_failure_absorbed:
  assumes "store w = SchemaRaises \<or> store w = CreateRaises"
  shows "(\<forall>r. snd (submit_contact w p) = Inr r \<longrightarrow> \<not> stored r) \<and>
    (\<exists>rest. fst (submit_contact w p) =
        fst (save_to_database (store w) p) @ Getenv ''SMTP_HOST'' # Getenv ''SMTP_PORT'' # rest) \<and>
    (\<forall>c. snd (prepare_email (getenv w)) = Inr c \<and> configured c \<longrightarrow>
        delivery_attempted (fst (submit_contact w p))) \<and>
    (\<forall>v. snd (submit_contact w p) =
        map_sum id (\<lambda>r. r\<lparr>stored := False\<rparr>) (snd (submit_contact (w\<lparr>store := CreateReturns v\<rparr>) p)) \<and>
       fst (submit_contact w p) =
        fst (save_to_database (store w) p) @ tl (fst (submit_contact (w\<lparr>store := CreateReturns v\<rparr>) p)))"
proof -
  from assms have falsy: "\<not> truthy (snd (save_to_database (store w) p))"
    by (auto simp: stored_truthy)
  have a: "\<forall>r. snd (submit_contact w p) = Inr r \<longrightarrow> \<not> stored r"
    using submit_contact_response falsy by blast
  have b: "\<exists>rest. fst (submit_contact w p) =
        fst (save_to_database (store w) p) @ Getenv ''SMTP_HOST'' # Getenv ''SMTP_PORT'' # rest"
  proof (cases "effective_port (getenv w)")
    case None
    then show ?thesis by (simp add: submit_contact_raises)
  next
    case (Some port)
    then obtain c where c: "snd (prepare_email (getenv w)) = Inr c"
      by (simp add: prepare_email_value)
    obtain rest where r: "fst (prepare_email (getenv w)) =
        Getenv ''SMTP_HOST'' # Getenv ''SMTP_PORT'' # rest"
      using prepare_email_events by blast
    show ?thesis
      by (cases "configured c")
         (simp_all add: submit_contact_configured [OF c] submit_contact_not_configured [OF c] r)
  qed
  have c: "\<forall>c. snd (prepare_email (getenv w)) = Inr c \<and> configured c \<longrightarrow>
        delivery_attempted (fst (submit_contact w p))"
  proof (intro allI impI)
    fix c assume h: "snd (prepare_email (getenv w)) = Inr c \<and> configured c"
    obtain rest where "fst (send_email (relay w) (as_string_raises w) c (build_message p c)) =
        SmtpConnect (the (smtp_host c)) (smtp_port c) # rest"
      using send_email_events by blast
    with h show "delivery_attempted (fst (submit_contact w p))"
      by (simp add: submit_contact_configured delivery_attempted_def)
  qed
  have d: "snd (submit_contact w p) =
        map_sum id (\<lambda>r. r\<lparr>stored := False\<rparr>) (snd (submit_contact (w\<lparr>store := CreateReturns v\<rparr>) p)) \<and>
       fst (submit_contact w p) =
        fst (save_to_database (store w) p) @ tl (fst (submit_contact (w\<lparr>store := CreateReturns v\<rparr>) p))"
    for v
  proof (cases "effective_port (getenv w)")
    case None
    then show ?thesis by (simp add: submit_contact_raises save_to_database_def)
  next
    case (Some port)
    then obtain c where c: "snd (prepare_email (getenv w)) = Inr c"
      by (simp add: prepare_email_value)
    then have c': "snd (prepare_email (getenv (w\<lparr>store := CreateReturns v\<rparr>))) = Inr c"
      by simp
    show ?thesis
    proof (cases "configured c")
      case True
      show ?thesis
        using falsy
        by (simp add: submit_contact_configured [OF c True]
              submit_contact_configured [OF c' True] save_to_database_def)
    next
      case False
      show ?thesis
        using falsy
        by (simp add: submit_contact_not_configured [OF c False]
              submit_contact_not_configured [OF c' False] save_to_database_def)
    qed
  qed
  from a b c d show ?thesis by blast
qed

theorem store_failure_absorbed_witness:
  "(store storeless_world = SchemaRaises \<or> store storeless_world = CreateRaises) \<and>
   (\<exists>c. snd (prepare_email (getenv storeless_world)) = Inr c \<and> configured c) \<and>
   delivery_attempted (fst (submit_contact storeless_world ada)) \<and>
   (\<exists>r. snd (submit_contact storeless_world ada) = Inr r \<and> \<not> stored r)"
proof -
  have s: "store storeless_world = SchemaRaises \<or> store storeless_world = CreateRaises"
    by (simp add: storeless_world_def)
  have c: "\<exists>c. snd (prepare_email (getenv storeless_world)) = Inr c \<and> configured c"
    by (simp add: storeless_world_def prepare_email_complete configured_complete)
  have r: "\<exists>r. snd (submit_contact storeless_world ada) = Inr r"
    by (rule submit_contact_returns [of _ 587])
       (simp add: storeless_world_def effective_port_complete)
  from store_failure_absorbed [OF s, of ada] s c r show ?thesis
    by blast
qed

text \<open>
  C4. The claim is that the endpoint never raises once validation has passed, an
  unparsable \<open>SMTP_PORT\<close> included. The conversion \<open>int(os.getenv("SMTP_PORT", "587"))\<close>
  of line 86 stands outside both \<open>try\<close> blocks: with \<open>SMTP_PORT=abc\<close> the handler
  raises \<open>ValueError\<close> after the store call and two reads of the environment, and no
  response is built.
\<close>

theorem unparsable_port_raises:
  "post_contact has_at (world_with env_bad_port) ''Ada'' ''ada@example.com'' ''Hi'' =
     ([CreateDocument ''contactmessage'' ''Ada'' ''ada@example.com'' ''Hi'',
       Getenv ''SMTP_HOST'', Getenv ''SMTP_PORT''], Inl ValueError)"
proof -
  have "effective_port env_bad_port = None"
    by (simp add: py_int_defs env_bad_port_def env_complete_def)
  then have "effective_port (getenv (world_with env_bad_port)) = None"
    by (simp add: world_with_def)
  then show ?thesis
    by (simp add: post_contact_def has_at_def submit_contact_raises)
       (simp add: world_with_def save_to_database_def)
qed

text \<open>
  C5. The claim is that with any one of the six effective values missing the response
  has \<open>email_sent = False\<close> and the "not configured" message, and no connection is
  attempted. For a missing host the handler does so. For a missing port it does not:
  with \<open>SMTP_PORT\<close> set to the empty string and the five other values present, the
  effective port value is empty, \<open>int("")\<close> on line 86 raises \<open>ValueError\<close> outside both
  \<open>try\<close> blocks, and the handler raises after the store call and two reads of the
  environment, with no response.
\<close>

theorem empty_port_raises:
  "getenv_default env_empty_port ''SMTP_PORT'' ''587'' = [] \<and>
   str_truthy (env_empty_port ''SMTP_HOST'') \<and> str_truthy (env_empty_port ''SMTP_USER'') \<and>
   str_truthy (env_empty_port ''SMTP_PASS'') \<and> str_truthy (env_empty_port ''SMTP_FROM'') \<and>
   str_truthy (env_empty_port ''SMTP_TO'') \<and>
   submit_contact (world_with env_empty_port) ada =
     ([CreateDocument ''contactmessage'' ''Ada'' ''ada@example.com''
         (''Hi'' @ [newline] @ ''there''),
       Getenv ''SMTP_HOST'', Getenv ''SMTP_PORT''], Inl ValueError) \<and>
   snd (submit_contact (world_with env_no_host) ada) =
     Inr \<lparr>ok = True, stored = True, email_sent = False,
          message = ''Contact saved. Email service not configured on server. Please set SMTP environment variables to enable email sending.''\<rparr>"
proof -
  have e: "effective_port (getenv (world_with env_empty_port)) = None"
    by (simp add: py_int_defs world_with_def env_empty_port_def env_complete_def)
  have a: "submit_contact (world_with env_empty_port) ada =
     ([CreateDocument ''contactmessage'' ''Ada'' ''ada@example.com''
         (''Hi'' @ [newline] @ ''there''),
       Getenv ''SMTP_HOST'', Getenv ''SMTP_PORT''], Inl ValueError)"
    unfolding submit_contact_raises [OF e]
    by (simp add: world_with_def save_to_database_def ada_def)
  let ?c = "\<lparr>smtp_host = env_no_host ''SMTP_HOST'', smtp_port = 587,
      smtp_user = env_no_host ''SMTP_USER'', smtp_pass = env_no_host ''SMTP_PASS'',
      smtp_from = py_or (env_no_host ''SMTP_FROM'') (env_no_host ''SMTP_USER''),
      smtp_to = py_or (env_no_host ''SMTP_TO'') (env_no_host ''CONTACT_RECIPIENT'')\<rparr>"
  have c: "snd (prepare_email (getenv (world_with env_no_host))) = Inr ?c"
    by (simp add: world_with_def prepare_email_value [OF effective_port_no_host])
  have n: "\<not> configured ?c"
    by (simp add: configured_def env_no_host_def)
  have b: "snd (submit_contact (world_with env_no_host) ada) =
     Inr \<lparr>ok = True, stored = True, email_sent = False,
          message = ''Contact saved. Email service not configured on server. Please set SMTP environment variables to enable email sending.''\<rparr>"
    unfolding submit_contact_not_configured [OF c n]
    by (simp add: world_with_def save_to_database_def NOT_CONFIGURED_def)
  have v: "getenv_default env_empty_port ''SMTP_PORT'' ''587'' = [] \<and>
   str_truthy (env_empty_port ''SMTP_HOST'') \<and> str_truthy (env_empty_port ''SMTP_USER'') \<and>
   str_truthy (env_empty_port ''SMTP_PASS'') \<and> str_truthy (env_empty_port ''SMTP_FROM'') \<and>
   str_truthy (env_empty_port ''SMTP_TO'')"
    by (simp add: getenv_default_def env_empty_port_def env_complete_def)
  from v a b show ?thesis by simp
qed

text \<open>
  C6, as stated: delivery is attempted exactly when the six values are non-empty, with
  the fallbacks taken when \<open>SMTP_FROM\<close> and \<open>SMTP_TO\<close> are unset. It fails in both
  directions: with \<open>SMTP_PORT=0\<close> all six are non-empty and nothing is attempted (the
  port is tested as an integer, and zero is falsy); with \<open>SMTP_FROM\<close> set to the empty
  string the sender is empty in the specification's reading, and the handler falls back
  to \<open>SMTP_USER\<close> and attempts delivery.
\<close>

theorem delivery_iff_all_six_counterexample:
  "spec_all_six_non_empty env_port_zero \<and>
   \<not> delivery_attempted (fst (submit_contact (world_with env_port_zero) ada)) \<and>
   \<not> spec_all_six_non_empty env_empty_from \<and>
   delivery_attempted (fst (submit_contact (world_with env_empty_from) ada))"
proof -
  have a: "spec_all_six_non_empty env_port_zero"
    by (simp add: spec_all_six_non_empty_def spec_fallback_def getenv_default_def
          env_port_zero_def env_complete_def)
  have b: "\<not> spec_all_six_non_empty env_empty_from"
    by (simp add: spec_all_six_non_empty_def spec_fallback_def getenv_default_def
          env_empty_from_def env_complete_def)
  have "snd (prepare_email (getenv (world_with env_port_zero))) =
      Inr \<lparr>smtp_host = env_port_zero ''SMTP_HOST'', smtp_port = 0,
           smtp_user = env_port_zero ''SMTP_USER'', smtp_pass = env_port_zero ''SMTP_PASS'',
           smtp_from = py_or (env_port_zero ''SMTP_FROM'') (env_port_zero ''SMTP_USER''),
           smtp_to = py_or (env_port_zero ''SMTP_TO'') (env_port_zero ''CONTACT_RECIPIENT'')\<rparr>"
    by (simp add: world_with_def prepare_email_value [OF effective_port_zero])
  then have c: "\<not> delivery_attempted (fst (submit_contact (world_with env_port_zero) ada))"
    by (simp add: attempted_iff_configured configured_def)
  have "snd (prepare_email (getenv (world_with env_empty_from))) =
      Inr \<lparr>smtp_host = env_empty_from ''SMTP_HOST'', smtp_port = 587,
           smtp_user = env_empty_from ''SMTP_USER'', smtp_pass = env_empty_from ''SMTP_PASS'',
           smtp_from = py_or (env_empty_from ''SMTP_FROM'') (env_empty_from ''SMTP_USER''),
           smtp_to = py_or (env_empty_from ''SMTP_TO'') (env_empty_from ''CONTACT_RECIPIENT'')\<rparr>"
    by (simp add: world_with_def prepare_email_value [OF effective_port_empty_from])
  then have d: "delivery_attempted (fst (submit_contact (world_with env_empty_from) ada))"
    by (simp add: attempted_iff_configured configured_def py_or_def
          env_empty_from_def env_complete_def)
  from a c b d show ?thesis by blast
qed

text \<open>
  C6, amended: when \<open>SMTP_PORT\<close> is unset or an integer literal, delivery is attempted
  exactly when host, user and password are set and non-empty, the port (587 when unset)
  is not zero, one of \<open>SMTP_FROM\<close> and \<open>SMTP_USER\<close> is non-empty and one of \<open>SMTP_TO\<close>
  and \<open>CONTACT_RECIPIENT\<close> is non-empty: the fallbacks are taken when the first variable
  is unset or empty.
\<close>

theorem delivery_attempted_iff:
  assumes "effective_port (getenv w) = Some port"
  shows "delivery_attempted (fst (submit_contact w p)) \<longleftrightarrow>
     str_truthy (getenv w ''SMTP_HOST'') \<and> port \<noteq> 0 \<and>
     str_truthy (getenv w ''SMTP_USER'') \<and> str_truthy (getenv w ''SMTP_PASS'') \<and>
     (str_truthy (getenv w ''SMTP_FROM'') \<or> str_truthy (getenv w ''SMTP_USER'')) \<and>
     (str_truthy (getenv w ''SMTP_TO'') \<or> str_truthy (getenv w ''CONTACT_RECIPIENT''))"
  by (simp add: attempted_iff_configured [OF prepare_email_value [OF assms]]
        configured_def str_truthy_py_or)

theorem delivery_attempted_iff_witness:
  "effective_port (getenv (world_with env_empty_from)) = Some 587 \<and>
   delivery_attempted (fst (submit_contact (world_with env_empty_from) ada)) \<and>
   effective_port (getenv (world_with env_port_zero)) = Some 0 \<and>
   \<not> delivery_attempted (fst (submit_contact (world_with env_port_zero) ada))"
proof -
  have a: "effective_port (getenv (world_with env_empty_from)) = Some 587"
    by (simp add: world_with_def effective_port_empty_from)
  have b: "effective_port (getenv (world_with env_port_zero)) = Some 0"
    by (simp add: world_with_def effective_port_zero)
  have c: "delivery_attempted (fst (submit_contact (world_with env_empty_from) ada))"
    unfolding delivery_attempted_iff [OF a]
    by (simp add: world_with_def env_empty_from_def env_complete_def)
  have d: "\<not> delivery_attempted (fst (submit_contact (world_with env_port_zero) ada))"
    unfolding delivery_attempted_iff [OF b] by simp
  from a b c d show ?thesis by blast
qed

text \<open>
  C7. With a complete configuration, when a step of the SMTP session raises (the
  connection, STARTTLS, the login, the transmission, or the closing of the session), the
  response has \<open>email_sent = False\<close> and the "thanks" message, and nothing is retried:
  one connection is opened and \<open>sendmail\<close> is called at most once.
\<close>

theorem send_failure_reported:
  assumes "snd (prepare_email (getenv w)) = Inr c" and "configured c" and "relay w s"
  shows "snd (submit_contact w p) =
      Inr \<lparr>ok = True, stored = truthy (snd (save_to_database (store w) p)),
           email_sent = False,
           message = ''Thanks! Your message has been received. We'' @ [CHR 0x27] @
                     ''ll get back to you shortly.''\<rparr> \<and>
     length (filter is_connect (fst (submit_contact w p))) = 1 \<and>
     length (filter is_sendmail (fst (submit_contact w p))) \<le> 1"
proof -
  have f: "snd (send_email (relay w) (as_string_raises w) c (build_message p c)) = False"
    using assms(3) by (rule send_email_fails)
  have n: "filter is_connect (fst (save_to_database (store w) p)) = []"
      "filter is_connect (fst (prepare_email (getenv w))) = []"
      "filter is_sendmail (fst (save_to_database (store w) p)) = []"
      "filter is_sendmail (fst (prepare_email (getenv w))) = []"
    using save_no_smtp prepare_no_smtp
    by (simp_all add: filter_connect_no_smtp filter_sendmail_no_smtp)
  show ?thesis
    using send_email_counts [of "relay w" "as_string_raises w" c "build_message p c"]
    by (simp add: submit_contact_configured [OF assms(1,2)] f n THANKS_def)
qed

theorem send_failure_reported_witness:
  "snd (prepare_email (getenv failing_relay_world)) = Inr config_complete \<and>
   configured config_complete \<and> relay failing_relay_world Login \<and>
   snd (submit_contact failing_relay_world ada) =
      Inr \<lparr>ok = True, stored = True, email_sent = False,
           message = ''Thanks! Your message has been received. We'' @ [CHR 0x27] @
                     ''ll get back to you shortly.''\<rparr>"
proof -
  have c: "snd (prepare_email (getenv failing_relay_world)) = Inr config_complete"
    by (simp add: failing_relay_world_def prepare_email_complete)
  have r: "relay failing_relay_world Login"
    by (simp add: failing_relay_world_def login_fails_def)
  have s: "truthy (snd (save_to_database (store failing_relay_world) ada))"
    by (simp add: failing_relay_world_def save_to_database_def)
  from send_failure_reported [OF c configured_complete r, of ada] c configured_complete r s
  show ?thesis by simp
qed



text \<open>
  C9. With a complete configuration, \<open>starttls\<close> is called before any \<open>login\<close> and any
  \<open>sendmail\<close>; every message handed to \<open>sendmail\<close> has the HTML body of the template,
  holding the name, the email address and the message with each newline character
  replaced by \<open><br/>\<close>, so that no newline of the message is left; the message is
  handed to \<open>sendmail\<close> exactly when it serialises and neither the connection, nor
  \<open>starttls\<close>, nor \<open>login\<close> raises; and when nothing raises at all, the session is
  connect, STARTTLS, login, sendmail of that message, quit.
\<close>

theorem delivered_message_html:
  assumes "snd (prepare_email (getenv w)) = Inr c" and "configured c"
  shows "starttls_first (fst (submit_contact w p)) \<and>
     (\<forall>f tos m. SmtpSendmail f tos m \<in> set (fst (submit_contact w p)) \<longrightarrow>
        html m =
          [newline] @
          ''        <h2>New Contact Inquiry</h2>'' @ [newline] @
          ''        <p><strong>Name:</strong> '' @ name p @ ''</p>'' @ [newline] @
          ''        <p><strong>Email:</strong> '' @ email p @ ''</p>'' @ [newline] @
          ''        <p><strong>Message:</strong><br/>'' @
            concat (map nl2br (ContactRequest.message p)) @ ''</p>'' @ [newline] @
          ''    '') \<and>
     newline \<notin> set (concat (map nl2br (ContactRequest.message p))) \<and>
     (SmtpSendmail (the (smtp_from c)) [the (smtp_to c)] (build_message p c)
          \<in> set (fst (submit_contact w p)) \<longleftrightarrow>
        \<not> as_string_raises w (build_message p c) \<and>
        \<not> relay w Connect \<and> \<not> relay w Starttls \<and> \<not> relay w Login) \<and>
     (\<not> as_string_raises w (build_message p c) \<and> (\<forall>s. \<not> relay w s) \<longrightarrow>
        filter is_smtp (fst (submit_contact w p)) =
          [SmtpConnect (the (smtp_host c)) (smtp_port c), SmtpStarttls,
           SmtpLogin (the (smtp_user c)) (the (smtp_pass c)),
           SmtpSendmail (the (smtp_from c)) [the (smtp_to c)] (build_message p c), SmtpQuit])"
proof -
  let ?pre = "fst (save_to_database (store w) p) @ fst (prepare_email (getenv w))"
  let ?send = "fst (send_email (relay w) (as_string_raises w) c (build_message p c))"
  have tr: "fst (submit_contact w p) = ?pre @ ?send"
    by (simp add: submit_contact_configured [OF assms])
  have pre: "\<forall>e\<in>set ?pre. \<not> is_smtp e"
    using save_no_smtp prepare_no_smtp by auto
  obtain rest where rest: "?send = SmtpConnect (the (smtp_host c)) (smtp_port c) # rest"
      "starttls_first rest"
      "\<forall>f tos m. SmtpSendmail f tos m \<in> set rest \<longrightarrow>
          f = the (smtp_from c) \<and> tos = [the (smtp_to c)] \<and> m = build_message p c"
    using send_email_events [of "relay w" "as_string_raises w" c "build_message p c"] by blast
  have a: "starttls_first (fst (submit_contact w p))"
    unfolding tr starttls_first_no_smtp [OF pre] by (simp add: rest)
  have b: "html m = html_body p" if "SmtpSendmail f tos m \<in> set (fst (submit_contact w p))"
    for f tos m
  proof -
    have "is_smtp (SmtpSendmail f tos m)" by simp
    with pre have "SmtpSendmail f tos m \<notin> set ?pre" by blast
    with that have "SmtpSendmail f tos m \<in> set ?send"
      unfolding tr by simp
    with rest have "m = build_message p c" by auto
    then show ?thesis by (simp add: build_message_def)
  qed
  have "SmtpSendmail (the (smtp_from c)) [the (smtp_to c)] (build_message p c) \<notin> set ?pre"
    using pre by (auto dest: bspec)
  then have e: "SmtpSendmail (the (smtp_from c)) [the (smtp_to c)] (build_message p c)
          \<in> set (fst (submit_contact w p)) \<longleftrightarrow>
        \<not> as_string_raises w (build_message p c) \<and>
        \<not> relay w Connect \<and> \<not> relay w Starttls \<and> \<not> relay w Login"
    unfolding tr by (simp add: send_email_reaches_sendmail)
  have d: "filter is_smtp (fst (submit_contact w p)) =
          [SmtpConnect (the (smtp_host c)) (smtp_port c), SmtpStarttls,
           SmtpLogin (the (smtp_user c)) (the (smtp_pass c)),
           SmtpSendmail (the (smtp_from c)) [the (smtp_to c)] (build_message p c), SmtpQuit]"
    if "\<not> as_string_raises w (build_message p c) \<and> (\<forall>s. \<not> relay w s)"
  proof -
    from that have ok: "\<forall>s. \<not> relay w s" "\<not> as_string_raises w (build_message p c)"
      by simp_all
    have "filter is_smtp ?pre = []"
      using pre by (rule filter_smtp_no_smtp)
    then have "filter is_smtp (?pre @ ?send) = filter is_smtp ?send"
      by (simp only: filter_append append_Nil)
    then show ?thesis
      unfolding tr using ok by (simp add: send_email_ok)
  qed
  from a b d e nl2br_no_newline show ?thesis
    unfolding html_body_template [symmetric] by blast
qed

theorem delivered_message_html_witness:
  "snd (prepare_email (getenv good_world)) = Inr config_complete \<and>
   configured config_complete \<and>
   \<not> as_string_raises good_world (build_message ada config_complete) \<and>
   (\<forall>s. \<not> relay good_world s) \<and>
   filter is_smtp (fst (submit_contact good_world ada)) =
     [SmtpConnect ''smtp.example.com'' 587, SmtpStarttls, SmtpLogin ''mailer'' ''secret'',
      SmtpSendmail ''noreply@example.com'' [''owner@example.com'']
        \<lparr>subject = ''New Inquiry from Bean and Cofe: Ada'',
         from_header = ''noreply@example.com'', to_header = ''owner@example.com'',
         html = [newline] @
           ''        <h2>New Contact Inquiry</h2>'' @ [newline] @
           ''        <p><strong>Name:</strong> Ada</p>'' @ [newline] @
           ''        <p><strong>Email:</strong> ada@example.com</p>'' @ [newline] @
           ''        <p><strong>Message:</strong><br/>Hi<br/>there</p>'' @ [newline] @
           ''    ''\<rparr>,
      SmtpQuit]"
proof -
  have c: "snd (prepare_email (getenv good_world)) = Inr config_complete"
    by (simp add: good_world_def prepare_email_complete)
  have a: "\<not> as_string_raises good_world (build_message ada config_complete)"
    by (simp add: good_world_def serialises_ada)
  have r: "\<forall>s. \<not> relay good_world s"
    by (simp add: good_world_def no_failure_def)
  from delivered_message_html [OF c configured_complete, of ada] a r
  have "filter is_smtp (fst (submit_contact good_world ada)) =
          [SmtpConnect (the (smtp_host config_complete)) (smtp_port config_complete),
           SmtpStarttls,
           SmtpLogin (the (smtp_user config_complete)) (the (smtp_pass config_complete)),
           SmtpSendmail (the (smtp_from config_complete)) [the (smtp_to config_complete)]
             (build_message ada config_complete), SmtpQuit]"
    by blast
  then have "filter is_smtp (fst (submit_contact good_world ada)) =
     [SmtpConnect ''smtp.example.com'' 587, SmtpStarttls, SmtpLogin ''mailer'' ''secret'',
      SmtpSendmail ''noreply@example.com'' [''owner@example.com'']
        (build_message ada config_complete), SmtpQuit]"
    by (simp add: config_complete_def)
  with c configured_complete a r show ?thesis
    unfolding build_message_ada by blast
qed

text \<open>
  C10. In every response, \<open>stored\<close> is true exactly when \<open>create_document\<close> returned,
  and returned a truthy identifier; a response is returned whenever \<open>SMTP_PORT\<close> is
  unset or an integer literal; and a call that returns \<open>None\<close>, the empty string or zero
  gives exactly what a call that raises gives.
\<close>

theorem stored_iff_truthy_identifier:
  "(\<forall>r. snd (submit_contact w p) = Inr r \<longrightarrow>
      (stored r \<longleftrightarrow> (\<exists>v. store w = CreateReturns v \<and> truthy v))) \<and>
   (effective_port (getenv w) \<noteq> None \<longrightarrow> (\<exists>r. snd (submit_contact w p) = Inr r)) \<and>
   (\<forall>v\<in>{PyNone, PyStr [], PyInt 0}.
      submit_contact (w\<lparr>store := CreateReturns v\<rparr>) p =
      submit_contact (w\<lparr>store := CreateRaises\<rparr>) p)"
proof -
  have a: "\<forall>r. snd (submit_contact w p) = Inr r \<longrightarrow>
      (stored r \<longleftrightarrow> (\<exists>v. store w = CreateReturns v \<and> truthy v))"
    using submit_contact_response [of w p] by (simp add: stored_truthy)
  have b: "effective_port (getenv w) \<noteq> None \<longrightarrow> (\<exists>r. snd (submit_contact w p) = Inr r)"
    using submit_contact_returns by blast
  have c: "submit_contact (w\<lparr>store := CreateReturns v\<rparr>) p =
      submit_contact (w\<lparr>store := CreateRaises\<rparr>) p" if "\<not> truthy v" for v
    using that
    by (cases "prepare_email (getenv w)")
       (auto simp: submit_contact_def save_to_database_def split: sum.splits prod.splits)
  from a b c show ?thesis by simp
qed

theorem stored_iff_truthy_identifier_witness:
  "effective_port (getenv good_world) \<noteq> None \<and>
   (\<exists>r. snd (submit_contact good_world ada) = Inr r \<and> stored r) \<and>
   PyStr [] \<in> {PyNone, PyStr [], PyInt 0} \<and>
   submit_contact (good_world\<lparr>store := CreateReturns (PyStr [])\<rparr>) ada =
     submit_contact (good_world\<lparr>store := CreateRaises\<rparr>) ada"
proof -
  have p: "effective_port (getenv good_world) \<noteq> None"
    by (simp add: good_world_def effective_port_complete)
  have s: "\<exists>v. store good_world = CreateReturns v \<and> truthy v"
    by (simp add: good_world_def)
  have m: "PyStr [] \<in> {PyNone, PyStr [], PyInt 0}"
    by simp
  from stored_iff_truthy_identifier [of good_world ada] p s m show ?thesis
    by blast
qed

end
